theory Spec2Isabelle
  imports Main "HOL-Library.AList"
begin

section \<open>Python values, exceptions and sequences\<close>

text \<open>
  The adapter of \<^verbatim>\<open>tiled/adapters/hdf5.py\<close> is embedded function by function.
  Every exception the Python can raise is a value of \<open>pyerror\<close>, and a call that
  may raise returns \<open>pyerror + 'a\<close> with \<open>Inl\<close> for the exception.
  The spec's error kinds are the Python exceptions: \<open>IncompatiblePolicy\<close> is
  \<open>ValueError\<close>, \<open>AlreadyAuthenticated\<close> is \<open>RuntimeError\<close>, \<open>NotImplemented\<close> is
  \<open>NotImplementedError\<close>, \<open>KeyNotFound\<close> is \<open>KeyError\<close> and \<open>IndexOutOfRange\<close> is
  \<open>IndexError\<close>.
\<close>

datatype pyerror =
    ValueError
  | RuntimeError
  | NotImplementedError
  | KeyError
  | IndexError
  | TypeError
  | AttributeError
  | UnicodeDecodeError
  | UfuncError

text \<open>
  The name \<open>keys\<close> of the indexer methods holds either a list or, after
  \<^verbatim>\<open>keys = reversed(keys)\<close>, the iterator object that the builtin \<^verbatim>\<open>reversed\<close>
  returns for a list. The two are different Python values: a list supports
  subscription, a \<^verbatim>\<open>list_reverseiterator\<close> does not.
\<close>

datatype 'a pyseq = PyList "'a list" | ListReverseIterator "'a list"

definition reversed :: "'a list \<Rightarrow> 'a pyseq" where
  "reversed xs = ListReverseIterator xs"

text \<open>
  \<^verbatim>\<open>xs[start:stop]\<close> on a list never raises: a missing bound (\<^verbatim>\<open>None\<close>) is the
  end of the list on its side, a negative bound counts from the end, and both are
  clamped to the list.
\<close>

definition slice_bound :: "nat \<Rightarrow> nat \<Rightarrow> int option \<Rightarrow> nat" where
  "slice_bound n dflt b =
     (case b of
        None \<Rightarrow> dflt
      | Some i \<Rightarrow> (if i < 0 then nat (max 0 (int n + i)) else min n (nat i)))"

definition list_slice :: "'a list \<Rightarrow> int option \<Rightarrow> int option \<Rightarrow> 'a list" where
  "list_slice xs start stop =
     (let n = length xs; lo = slice_bound n 0 start; hi = slice_bound n n stop
      in take (hi - lo) (drop lo xs))"

definition getslice :: "'a pyseq \<Rightarrow> int option \<Rightarrow> int option \<Rightarrow> pyerror + 'a list" where
  "getslice s start stop =
     (case s of
        PyList xs \<Rightarrow> Inr (list_slice xs start stop)
      | ListReverseIterator xs \<Rightarrow> Inl TypeError)"

text \<open>\<^verbatim>\<open>xs[index]\<close>: a negative index counts from the end; out of range raises.\<close>

definition getindex :: "'a pyseq \<Rightarrow> int \<Rightarrow> pyerror + 'a" where
  "getindex s i =
     (case s of
        ListReverseIterator xs \<Rightarrow> Inl TypeError
      | PyList xs \<Rightarrow>
          (if i < - int (length xs) \<or> int (length xs) \<le> i then Inl IndexError
           else if i < 0 then Inr (xs ! nat (i + int (length xs)))
           else Inr (xs ! nat i)))"

section \<open>The container: groups, datasets, attributes\<close>

text \<open>
  An attribute value is text, raw bytes or a number. Python text is represented by
  its UTF-8 encoding, so \<^verbatim>\<open>bytes.decode()\<close> (UTF-8, strict) keeps the bytes and
  succeeds exactly on well-formed UTF-8.
\<close>

datatype attr_value = AStr string | ABytes string | ANum int

type_synonym attr_items = "(string \<times> attr_value) list"

definition cont_byte :: "nat \<Rightarrow> bool" where
  "cont_byte b \<longleftrightarrow> 128 \<le> b \<and> b \<le> 191"

fun utf8_wellformed :: "nat list \<Rightarrow> bool" where
  "utf8_wellformed [] = True"
| "utf8_wellformed (b # bs) =
     (if b < 128 then utf8_wellformed bs
      else if 194 \<le> b \<and> b \<le> 223 then
        (case bs of
           c1 # r \<Rightarrow> cont_byte c1 \<and> utf8_wellformed r
         | _ \<Rightarrow> False)
      else if 224 \<le> b \<and> b \<le> 239 then
        (case bs of
           c1 # c2 # r \<Rightarrow>
             (if b = 224 then 160 \<le> c1 \<and> c1 \<le> 191
              else if b = 237 then 128 \<le> c1 \<and> c1 \<le> 159
              else cont_byte c1)
             \<and> cont_byte c2 \<and> utf8_wellformed r
         | _ \<Rightarrow> False)
      else if 240 \<le> b \<and> b \<le> 244 then
        (case bs of
           c1 # c2 # c3 # r \<Rightarrow>
             (if b = 240 then 144 \<le> c1 \<and> c1 \<le> 191
              else if b = 244 then 128 \<le> c1 \<and> c1 \<le> 143
              else cont_byte c1)
             \<and> cont_byte c2 \<and> cont_byte c3 \<and> utf8_wellformed r
         | _ \<Rightarrow> False)
      else False)"

definition bytes_decode :: "string \<Rightarrow> pyerror + string" where
  "bytes_decode b =
     (if utf8_wellformed (map of_char b) then Inr b else Inl UnicodeDecodeError)"

text \<open>
  Of a dataset's element type the adapter observes two things: whether it compares
  equal to \<^verbatim>\<open>numpy.dtype("O")\<close>, and what \<^verbatim>\<open>h5py.check_string_dtype\<close> answers for
  it. The element types of h5py are: a fixed-width numeric type; a fixed-length
  string (numpy kind \<^verbatim>\<open>S\<close>, with its encoding and item size); and the object types,
  which are tagged either as variable-length strings with an encoding or as
  something else (variable-length numeric arrays, object references). Only the
  object types compare equal to \<^verbatim>\<open>numpy.dtype("O")\<close>. The string check answers a
  \<^verbatim>\<open>string_info(encoding, length)\<close> for the two string types, with length \<^verbatim>\<open>None\<close>
  for the variable-length one, and \<^verbatim>\<open>None\<close> for every other type.
\<close>

record string_info =
  encoding :: string
  str_length :: "nat option"

datatype np_dtype =
    Numeric string
  | FixedString string nat
  | VlenString string
  | VlenOther

fun is_object :: "np_dtype \<Rightarrow> bool" where
  "is_object (Numeric k) = False"
| "is_object (FixedString enc n) = False"
| "is_object (VlenString enc) = True"
| "is_object VlenOther = True"

fun check_string_dtype :: "np_dtype \<Rightarrow> string_info option" where
  "check_string_dtype (FixedString enc n) = Some \<lparr>encoding = enc, str_length = Some n\<rparr>"
| "check_string_dtype (VlenString enc) = Some \<lparr>encoding = enc, str_length = None\<rparr>"
| "check_string_dtype (Numeric k) = None"
| "check_string_dtype VlenOther = None"

text \<open>
  The elements of a dataset or of an array, with their arrangement: \<open>Item\<close> is a
  zero-dimensional value (shape \<^verbatim>\<open>()\<close>, one element), \<open>Dim\<close> adds a dimension, so
  \<open>Dim []\<close> is the empty one-dimensional array and \<open>Dim [Item x]\<close> has shape
  \<^verbatim>\<open>(1,)\<close>. The size is the number of elements.
\<close>

datatype nd = Item string | Dim "nd list"

fun nd_size :: "nd \<Rightarrow> nat" where
  "nd_size (Item x) = 1"
| "nd_size (Dim xs) = sum_list (map nd_size xs)"

fun zero_dim :: "nd \<Rightarrow> bool" where
  "zero_dim (Item x) = True"
| "zero_dim (Dim xs) = False"

record dataset =
  dtype :: np_dtype
  content :: nd
  attrs :: attr_items

definition size_ds :: "dataset \<Rightarrow> nat" where
  "size_ds v = nd_size (content v)"

datatype h5group =
    H5Group (name: string) (group_attrs: attr_items) (members: "(string \<times> h5obj) list")
and h5obj = IsGroup h5group | IsDataset dataset

text \<open>
  An h5py group object knows the file it belongs to, so the handle that an adapter
  holds is the pair of the file's root group and the group itself.

  \<^verbatim>\<open>group[key]\<close> is h5py's lookup by path, here for a file without links: the key
  is cut at every \<^verbatim>\<open>/\<close>, empty components and the component \<^verbatim>\<open>.\<close> are skipped,
  and the remaining names are followed from the group, or from the root of the
  file when the key begins with \<^verbatim>\<open>/\<close>. A name that is not a member, or any name
  below a dataset, raises \<^verbatim>\<open>KeyError\<close>; the empty key is refused with
  \<^verbatim>\<open>ValueError\<close>. So a child name resolves to the child, \<^verbatim>\<open>entry/data\<close> to a
  grandchild, and \<^verbatim>\<open>.\<close> and \<^verbatim>\<open>/\<close> to the group and to the root.
\<close>

record h5py_group =
  file_of :: h5group
  group_of :: h5group

fun split_path :: "string \<Rightarrow> string list" where
  "split_path [] = [[]]"
| "split_path (c # cs) =
     (if c = CHR ''/'' then [] # split_path cs
      else (case split_path cs of
              [] \<Rightarrow> [[c]]
            | w # ws \<Rightarrow> (c # w) # ws))"

definition components :: "string \<Rightarrow> string list" where
  "components key = filter (\<lambda>w. w \<noteq> [] \<and> w \<noteq> ''.'') (split_path key)"

fun walk :: "h5obj \<Rightarrow> string list \<Rightarrow> pyerror + h5obj" where
  "walk obj [] = Inr obj"
| "walk (IsDataset d) (c # cs) = Inl KeyError"
| "walk (IsGroup g) (c # cs) =
     (case map_of (members g) c of
        None \<Rightarrow> Inl KeyError
      | Some child \<Rightarrow> walk child cs)"

definition Group_getitem :: "h5py_group \<Rightarrow> string \<Rightarrow> pyerror + h5obj" where
  "Group_getitem g key =
     (case key of
        [] \<Rightarrow> Inl ValueError
      | c # cs \<Rightarrow>
          walk (IsGroup (if c = CHR ''/'' then file_of g else group_of g)) (components key))"

text \<open>
  Arrays in memory: an array has elements and may or may not have the object
  dtype. \<^verbatim>\<open>dataset[...]\<close> reads a dataset into an array of its own dtype and shape,
  and \<^verbatim>\<open>[()]\<close> on the result gives the element itself when the array is
  zero-dimensional and the array otherwise. \<^verbatim>\<open>numpy.array\<close> of a string element is
  a zero-dimensional array of a string dtype, not of the object dtype;
  \<^verbatim>\<open>numpy.array\<close> of an array keeps dtype and shape; \<^verbatim>\<open>numpy.array([])\<close> is the
  empty one-dimensional float array.

  \<^verbatim>\<open>value.file[self._node.name + "/" + key][...][()]\<close> looks the path up from the
  root of the file. Subscripting a group with \<^verbatim>\<open>...\<close> raises \<^verbatim>\<open>TypeError\<close>.
\<close>

record np_array =
  hasobject :: bool
  array_values :: nd

datatype pyvalue = PyObject string | PyArray np_array

definition read_all :: "h5group \<Rightarrow> string \<Rightarrow> pyerror + pyvalue" where
  "read_all f path =
     (case Group_getitem \<lparr>file_of = f, group_of = f\<rparr> path of
        Inl e \<Rightarrow> Inl e
      | Inr (IsGroup g) \<Rightarrow> Inl TypeError
      | Inr (IsDataset d) \<Rightarrow>
          (case content d of
             Item x \<Rightarrow> Inr (PyObject x)
           | Dim xs \<Rightarrow> Inr (PyArray \<lparr>hasobject = is_object (dtype d), array_values = Dim xs\<rparr>)))"

fun numpy_array :: "pyvalue \<Rightarrow> np_array" where
  "numpy_array (PyObject x) = \<lparr>hasobject = False, array_values = Item x\<rparr>"
| "numpy_array (PyArray a) = a"

definition numpy_array_empty :: np_array where
  "numpy_array_empty = \<lparr>hasobject = False, array_values = Dim []\<rparr>"

section \<open>ArrayWithAttrs\<close>

text \<open>
  The claims about \<^verbatim>\<open>ArrayWithAttrs\<close> speak of the same metadata reference, so the
  dictionaries live in a store: an address is a position in the list of all
  dictionaries allocated so far, and allocation appends. An instance's
  \<^verbatim>\<open>__dict__\<close> is a dictionary of the store whose entry \<^verbatim>\<open>attrs\<close> refers to another
  one. Numeric buffers are values of an arbitrary type \<open>'b\<close>.
\<close>

datatype dval = DRef nat | DVal attr_value

type_synonym pydict = "(string \<times> dval) list"

type_synonym heap = "pydict list"

definition alloc :: "pydict \<Rightarrow> heap \<Rightarrow> nat \<times> heap" where
  "alloc d h = (length h, h @ [d])"

definition deref :: "heap \<Rightarrow> nat \<Rightarrow> pydict option" where
  "deref h a = (if a < length h then Some (h ! a) else None)"

fun update_items :: "('k \<times> 'v) list \<Rightarrow> ('k \<times> 'v) list \<Rightarrow> ('k \<times> 'v) list" where
  "update_items d [] = d"
| "update_items d ((k, v) # kvs) = update_items (AList.update k v d) kvs"

record 'b ArrayWithAttrs =
  ndarray :: 'b
  dict :: nat

text \<open>
  \<^verbatim>\<open>__array_finalize__(self, obj)\<close>: nothing when \<^verbatim>\<open>obj is None\<close>; otherwise a fresh
  empty dictionary is stored under \<^verbatim>\<open>attrs\<close> in \<^verbatim>\<open>self.__dict__\<close>.
\<close>

definition array_finalize :: "nat \<Rightarrow> bool \<Rightarrow> heap \<Rightarrow> heap" where
  "array_finalize self_dict obj_is_None h =
     (if obj_is_None then h
      else
        (let (a, h1) = alloc [] h;
             default_attributes = [(''attrs'', DRef a)]
         in h1[self_dict := update_items (h1 ! self_dict) default_attributes]))"

text \<open>
  \<^verbatim>\<open>__new__\<close>: \<^verbatim>\<open>numpy.asarray(input_array).view(cls)\<close> makes a new instance with its
  own empty \<^verbatim>\<open>__dict__\<close>, and \<^verbatim>\<open>view\<close> calls \<^verbatim>\<open>__array_finalize__\<close> with the
  viewed array, which is never \<^verbatim>\<open>None\<close>.
\<close>

definition ArrayWithAttrs_new :: "'b \<Rightarrow> heap \<Rightarrow> 'b ArrayWithAttrs \<times> heap" where
  "ArrayWithAttrs_new input_array h =
     (let (d, h1) = alloc [] h;
          h2 = array_finalize d False h1
      in (\<lparr>ndarray = input_array, dict = d\<rparr>, h2))"

text \<open>Attribute lookup \<^verbatim>\<open>a.attrs\<close> through the instance dictionary.\<close>

definition getattr_attrs :: "heap \<Rightarrow> 'b ArrayWithAttrs \<Rightarrow> pyerror + dval" where
  "getattr_attrs h a =
     (case deref h (dict a) of
        None \<Rightarrow> Inl AttributeError
      | Some d \<Rightarrow>
          (case map_of d ''attrs'' of
             None \<Rightarrow> Inl AttributeError
           | Some v \<Rightarrow> Inr v))"

text \<open>
  A ufunc is given by what its six entry points compute on bare buffers (keyword
  arguments are passed on to them unchanged, so they are part of each entry
  point). An operand is an \<^verbatim>\<open>ArrayWithAttrs\<close>, a plain \<^verbatim>\<open>ndarray\<close>, or some other
  Python object (a scalar, a list), which has no \<^verbatim>\<open>view\<close> method.
\<close>

datatype ufunc_method = Reduce | Accumulate | Reduceat | Outer | At | Call

record 'b ufunc =
  ufunc_reduce :: "'b list \<Rightarrow> pyerror + 'b"
  ufunc_accumulate :: "'b list \<Rightarrow> pyerror + 'b"
  ufunc_reduceat :: "'b list \<Rightarrow> pyerror + 'b"
  ufunc_outer :: "'b list \<Rightarrow> pyerror + 'b"
  ufunc_at :: "'b list \<Rightarrow> pyerror + 'b"
  ufunc_call :: "'b list \<Rightarrow> pyerror + 'b"

datatype 'b operand = WithAttrs "'b ArrayWithAttrs" | NdArray 'b | NotAnArray

fun view_ndarray :: "'b operand \<Rightarrow> pyerror + 'b" where
  "view_ndarray (WithAttrs a) = Inr (ndarray a)"
| "view_ndarray (NdArray b) = Inr b"
| "view_ndarray NotAnArray = Inl AttributeError"

fun views :: "'b operand list \<Rightarrow> pyerror + 'b list" where
  "views [] = Inr []"
| "views (i # inputs) =
     (case view_ndarray i of
        Inl e \<Rightarrow> Inl e
      | Inr b \<Rightarrow> (case views inputs of Inl e \<Rightarrow> Inl e | Inr bs \<Rightarrow> Inr (b # bs)))"

text \<open>The dispatch table \<^verbatim>\<open>f\<close> of \<^verbatim>\<open>__array_ufunc__\<close>, from method name to entry point.\<close>

fun f_table :: "'b ufunc \<Rightarrow> ufunc_method \<Rightarrow> 'b list \<Rightarrow> pyerror + 'b" where
  "f_table u Reduce = ufunc_reduce u"
| "f_table u Accumulate = ufunc_accumulate u"
| "f_table u Reduceat = ufunc_reduceat u"
| "f_table u Outer = ufunc_outer u"
| "f_table u At = ufunc_at u"
| "f_table u Call = ufunc_call u"

definition array_ufunc ::
  "'b ArrayWithAttrs \<Rightarrow> 'b ufunc \<Rightarrow> ufunc_method \<Rightarrow> 'b operand list \<Rightarrow> heap
     \<Rightarrow> pyerror + ('b ArrayWithAttrs \<times> heap)" where
  "array_ufunc self u method inputs h =
     (case views inputs of
        Inl e \<Rightarrow> Inl e
      | Inr bs \<Rightarrow>
          (case f_table u method bs of
             Inl e \<Rightarrow> Inl e
           | Inr r \<Rightarrow>
               (let (output, h1) = ArrayWithAttrs_new r h
                in Inr (output\<lparr>dict := dict self\<rparr>, h1))))"

section \<open>HDF5DatasetAdapter\<close>

text \<open>
  Modelled from the spec: \<^verbatim>\<open>ArrayAdapter\<close> (\<^verbatim>\<open>tiled/adapters/array.py\<close>), the base
  class of \<^verbatim>\<open>HDF5DatasetAdapter\<close>, is not among the sources. The spec's
  LeafAdapter holds an array value and a metadata map taken from the leaf's
  attribute store, so the adapter is the record of the two arguments that
  \<^verbatim>\<open>HDF5DatasetAdapter.__init__\<close> hands to the base constructor.

  The argument of \<^verbatim>\<open>HDF5DatasetAdapter\<close> is an h5py dataset or an
  \<^verbatim>\<open>ArrayWithAttrs\<close>. \<^verbatim>\<open>dask.array.from_array\<close> is called without chunks, and
  choosing chunks needs the size of an element: for an array of the object dtype
  with at least one dimension it raises \<^verbatim>\<open>NotImplementedError\<close>, and otherwise it
  wraps the array lazily. \<^verbatim>\<open>dataset.attrs\<close>, evaluated after it, is the dataset's
  attribute store in the first case and the attribute \<^verbatim>\<open>attrs\<close> of the instance in
  the second.
\<close>

datatype array_like = H5Dataset dataset | NumpyArray "np_array ArrayWithAttrs"

datatype dask_array = FromArray array_like

datatype metadata_src = AttributeManager attr_items | PyValue dval

record ArrayAdapter =
  data :: dask_array
  metadata :: metadata_src

fun object_with_dimension :: "array_like \<Rightarrow> bool" where
  "object_with_dimension (H5Dataset v) \<longleftrightarrow> is_object (dtype v) \<and> \<not> zero_dim (content v)"
| "object_with_dimension (NumpyArray a) \<longleftrightarrow>
     hasobject (ndarray a) \<and> \<not> zero_dim (array_values (ndarray a))"

definition from_array :: "array_like \<Rightarrow> pyerror + dask_array" where
  "from_array x = (if object_with_dimension x then Inl NotImplementedError else Inr (FromArray x))"

definition HDF5DatasetAdapter :: "array_like \<Rightarrow> heap \<Rightarrow> pyerror + ArrayAdapter" where
  "HDF5DatasetAdapter ds h =
     (case from_array ds of
        Inl e \<Rightarrow> Inl e
      | Inr lazy \<Rightarrow>
          (case ds of
             H5Dataset v \<Rightarrow> Inr \<lparr>data = lazy, metadata = AttributeManager (attrs v)\<rparr>
           | NumpyArray a \<Rightarrow>
               (case getattr_attrs h a of
                  Inl e \<Rightarrow> Inl e
                | Inr m \<Rightarrow> Inr \<lparr>data = lazy, metadata = PyValue m\<rparr>)))"

section \<open>HDF5Adapter\<close>

text \<open>
  An access policy is an object with a method \<^verbatim>\<open>check_compatibility\<close>. The
  constructor calls it on the adapter under construction before any field is set,
  so for this adapter the answer is a property of the policy.
\<close>

record policy =
  policy_label :: string
  check_compatibility :: bool

record 'i HDF5Adapter =
  node :: h5py_group
  access_policy :: "policy option"
  authenticated_identity :: "'i option"

datatype 'i tree_child = Node "'i HDF5Adapter" | Leaf ArrayAdapter

definition HDF5Adapter_init ::
  "h5py_group \<Rightarrow> policy option \<Rightarrow> 'i option \<Rightarrow> pyerror + 'i HDF5Adapter" where
  "HDF5Adapter_init nd pol ident =
     (if (case pol of None \<Rightarrow> False | Some p \<Rightarrow> \<not> check_compatibility p)
      then Inl ValueError
      else Inr \<lparr>node = nd, access_policy = pol, authenticated_identity = ident\<rparr>)"

text \<open>
  \<^verbatim>\<open>authenticated_as\<close> checks the bound identity first and the policy second, and
  then calls the constructor. Its argument is any Python value, \<^verbatim>\<open>None\<close> included,
  so it has the type of the field it fills.
\<close>

definition authenticated_as :: "'i HDF5Adapter \<Rightarrow> 'i option \<Rightarrow> pyerror + 'i HDF5Adapter" where
  "authenticated_as self identity =
     (if authenticated_identity self \<noteq> None then Inl RuntimeError
      else if access_policy self \<noteq> None then Inl NotImplementedError
      else HDF5Adapter_init (node self) (access_policy self) identity)"

text \<open>
  The property \<^verbatim>\<open>metadata\<close>: \<^verbatim>\<open>dict(self._node.attrs)\<close>, then every value that
  is \<^verbatim>\<open>bytes\<close> is replaced by its decoding.
\<close>

definition dict_of :: "('k \<times> 'v) list \<Rightarrow> ('k \<times> 'v) list" where
  "dict_of kvs = update_items [] kvs"

fun decode_items :: "attr_items \<Rightarrow> attr_items \<Rightarrow> pyerror + attr_items" where
  "decode_items [] d = Inr d"
| "decode_items ((k, v) # kvs) d =
     (case v of
        ABytes b \<Rightarrow>
          (case bytes_decode b of
             Inl e \<Rightarrow> Inl e
           | Inr s \<Rightarrow> decode_items kvs (AList.update k (AStr s) d))
      | _ \<Rightarrow> decode_items kvs d)"

definition decode_attrs :: "attr_items \<Rightarrow> pyerror + attr_items" where
  "decode_attrs a = (let d = dict_of a in decode_items d d)"

definition HDF5Adapter_metadata :: "'i HDF5Adapter \<Rightarrow> pyerror + attr_items" where
  "HDF5Adapter_metadata self = decode_attrs (group_attrs (group_of (node self)))"

text \<open>\<^verbatim>\<open>__iter__\<close> and \<^verbatim>\<open>__len__\<close>: the child names in the container's order.\<close>

definition iter :: "'i HDF5Adapter \<Rightarrow> string list" where
  "iter self = map fst (members (group_of (node self)))"

definition len :: "'i HDF5Adapter \<Rightarrow> nat" where
  "len self = length (members (group_of (node self)))"

text \<open>
  \<^verbatim>\<open>__getitem__\<close>. \<^verbatim>\<open>self._node[key]\<close> is the lookup of the group, and what it
  raises passes through. A group found is wrapped in a new adapter on the same
  file. \<^verbatim>\<open>check_str_dtype.length\<close> is an attribute access on what
  \<^verbatim>\<open>check_string_dtype\<close> returned, and \<^verbatim>\<open>None\<close> has no attribute \<^verbatim>\<open>length\<close>. The
  last statement of the object branch, the empty placeholder, is reached both when
  the length is not \<^verbatim>\<open>None\<close> and when the size is not 1. The warning that the
  object branch emits changes no value and is left out.
\<close>

definition getitem ::
  "'i HDF5Adapter \<Rightarrow> string \<Rightarrow> heap \<Rightarrow> pyerror + ('i tree_child \<times> heap)" where
  "getitem self key h =
     (case Group_getitem (node self) key of
        Inl e \<Rightarrow> Inl e
      | Inr (IsGroup g) \<Rightarrow>
          (case HDF5Adapter_init \<lparr>file_of = file_of (node self), group_of = g\<rparr> None None of
             Inl e \<Rightarrow> Inl e
           | Inr t \<Rightarrow> Inr (Node t, h))
      | Inr (IsDataset v) \<Rightarrow>
          (if is_object (dtype v) then
             (case check_string_dtype (dtype v) of
                None \<Rightarrow> Inl AttributeError
              | Some check_str_dtype \<Rightarrow>
                  (let placeholder =
                         (let (arr, h1) = ArrayWithAttrs_new numpy_array_empty h
                          in map_sum id (\<lambda>l. (Leaf l, h1))
                               (HDF5DatasetAdapter (NumpyArray arr) h1))
                   in if str_length check_str_dtype = None then
                        (case read_all (file_of (node self))
                                (name (group_of (node self)) @ ''/'' @ key) of
                           Inl e \<Rightarrow> Inl e
                         | Inr dataset_names \<Rightarrow>
                             (if size_ds v = 1 then
                                (let (arr, h1) = ArrayWithAttrs_new (numpy_array dataset_names) h
                                 in map_sum id (\<lambda>l. (Leaf l, h1))
                                      (HDF5DatasetAdapter (NumpyArray arr) h1))
                              else placeholder))
                      else placeholder))
           else map_sum id (\<lambda>l. (Leaf l, h)) (HDF5DatasetAdapter (H5Dataset v) h)))"

text \<open>
  \<^verbatim>\<open>__contains__\<close> is inherited from \<^verbatim>\<open>collections.abc.Mapping\<close>: it evaluates
  \<^verbatim>\<open>self[key]\<close>, answers \<^verbatim>\<open>False\<close> on \<^verbatim>\<open>KeyError\<close> and \<^verbatim>\<open>True\<close> when the lookup
  returns; any other exception passes through.
\<close>

definition contains :: "'i HDF5Adapter \<Rightarrow> string \<Rightarrow> heap \<Rightarrow> pyerror + (bool \<times> heap)" where
  "contains self key h =
     (case getitem self key h of
        Inl e \<Rightarrow> (if e = KeyError then Inr (False, h) else Inl e)
      | Inr (c, h1) \<Rightarrow> Inr (True, h1))"

subsection \<open>The methods used by the indexers\<close>

definition keys_slice ::
  "'i HDF5Adapter \<Rightarrow> int option \<Rightarrow> int option \<Rightarrow> int \<Rightarrow> pyerror + string list" where
  "keys_slice self start stop direction =
     (let keys = iter self;
          keys' = (if direction < 0 then reversed keys else PyList keys)
      in getslice keys' start stop)"

fun resolve_items ::
  "'i HDF5Adapter \<Rightarrow> string list \<Rightarrow> heap
     \<Rightarrow> pyerror + ((string \<times> 'i tree_child) list \<times> heap)" where
  "resolve_items self [] h = Inr ([], h)"
| "resolve_items self (key # ks) h =
     (case getitem self key h of
        Inl e \<Rightarrow> Inl e
      | Inr (c, h1) \<Rightarrow>
          (case resolve_items self ks h1 of
             Inl e \<Rightarrow> Inl e
           | Inr (cs, h2) \<Rightarrow> Inr ((key, c) # cs, h2)))"

definition items_slice ::
  "'i HDF5Adapter \<Rightarrow> int option \<Rightarrow> int option \<Rightarrow> int \<Rightarrow> heap
     \<Rightarrow> pyerror + ((string \<times> 'i tree_child) list \<times> heap)" where
  "items_slice self start stop direction h =
     (case resolve_items self (iter self) h of
        Inl e \<Rightarrow> Inl e
      | Inr (items, h1) \<Rightarrow>
          (let items' = (if direction < 0 then reversed items else PyList items)
           in map_sum id (\<lambda>r. (r, h1)) (getslice items' start stop)))"

definition item_by_index :: "'i HDF5Adapter \<Rightarrow> int \<Rightarrow> int \<Rightarrow> pyerror + string" where
  "item_by_index self index direction =
     (let keys = iter self;
          keys' = (if direction < 0 then reversed keys else PyList keys)
      in getindex keys' index)"

section \<open>The direct leaf adapter\<close>


section \<open>A sample container\<close>

text \<open>
  A file whose root holds a sub-group, a float dataset carrying a bytes attribute,
  variable-length string datasets of shape \<^verbatim>\<open>(2,)\<close> and \<^verbatim>\<open>(1,)\<close>, a dataset of
  variable-length integer arrays (an object type that is not a string), and two
  fixed-length string datasets. The sub-group holds the float dataset again and a
  scalar variable-length string.
\<close>

definition float64 :: np_dtype where
  "float64 = Numeric ''float64''"

definition vlen_str :: np_dtype where
  "vlen_str = VlenString ''utf-8''"

definition vlen_int :: np_dtype where
  "vlen_int = VlenOther"

definition fixed_str :: np_dtype where
  "fixed_str = FixedString ''ascii'' 5"

definition data_ds :: dataset where
  "data_ds = \<lparr>dtype = float64, content = Dim [Item ''1.5'', Item ''2.5''],
              attrs = [(''unit'', ABytes ''eV'')]\<rparr>"

definition names_ds :: dataset where
  "names_ds = \<lparr>dtype = vlen_str, content = Dim [Item ''alpha'', Item ''beta''],
               attrs = [(''unit'', AStr ''eV'')]\<rparr>"

definition one_ds :: dataset where
  "one_ds = \<lparr>dtype = vlen_str, content = Dim [Item ''alpha''],
             attrs = [(''unit'', AStr ''eV'')]\<rparr>"

definition note_ds :: dataset where
  "note_ds = \<lparr>dtype = vlen_str, content = Item ''alpha'', attrs = [(''unit'', AStr ''eV'')]\<rparr>"

definition ragged_ds :: dataset where
  "ragged_ds = \<lparr>dtype = vlen_int, content = Dim [Item ''1 2 3'', Item ''4''], attrs = []\<rparr>"

definition fixed_ds :: dataset where
  "fixed_ds = \<lparr>dtype = fixed_str, content = Dim [Item ''hello'', Item ''world''],
               attrs = [(''unit'', AStr ''eV'')]\<rparr>"

definition fixed_one_ds :: dataset where
  "fixed_one_ds = \<lparr>dtype = fixed_str, content = Dim [Item ''hello''], attrs = []\<rparr>"

definition entry_group :: h5group where
  "entry_group =
     H5Group ''/entry'' [] [(''data'', IsDataset data_ds), (''note'', IsDataset note_ds)]"

definition root_group :: h5group where
  "root_group =
     H5Group ''/'' [(''title'', ABytes ''demo'')]
       [(''entry'', IsGroup entry_group),
        (''data'', IsDataset data_ds),
        (''names'', IsDataset names_ds),
        (''one'', IsDataset one_ds),
        (''ragged'', IsDataset ragged_ds),
        (''fixed'', IsDataset fixed_ds),
        (''fixed_one'', IsDataset fixed_one_ds)]"

definition root :: "string HDF5Adapter" where
  "root = \<lparr>node = \<lparr>file_of = root_group, group_of = root_group\<rparr>,
            access_policy = None, authenticated_identity = None\<rparr>"

definition entry :: "string HDF5Adapter" where
  "entry = \<lparr>node = \<lparr>file_of = root_group, group_of = entry_group\<rparr>,
             access_policy = None, authenticated_identity = None\<rparr>"

definition strict_policy :: policy where
  "strict_policy = \<lparr>policy_label = ''strict'', check_compatibility = False\<rparr>"

definition open_policy :: policy where
  "open_policy = \<lparr>policy_label = ''open'', check_compatibility = True\<rparr>"

text \<open>A ufunc on lists of integers: every entry point adds up all its operands.\<close>

definition sum_kernel :: "int list list \<Rightarrow> pyerror + int list" where
  "sum_kernel bs = Inr [sum_list (concat bs)]"

definition add_ufunc :: "int list ufunc" where
  "add_ufunc = \<lparr>ufunc_reduce = sum_kernel, ufunc_accumulate = sum_kernel,
                 ufunc_reduceat = sum_kernel, ufunc_outer = sum_kernel,
                 ufunc_at = sum_kernel, ufunc_call = sum_kernel\<rparr>"

text \<open>An array whose metadata holds one entry, in a store of two dictionaries.\<close>

definition sample_heap :: heap where
  "sample_heap = [[(''attrs'', DRef 1)], [(''unit'', DVal (AStr ''eV''))]]"

definition sample_array :: "int list ArrayWithAttrs" where
  "sample_array = \<lparr>ndarray = [1, 2, 3], dict = 0\<rparr>"

section \<open>Basic facts about the store and the array type\<close>

lemma ArrayWithAttrs_new_eq:
  "ArrayWithAttrs_new b h =
     (\<lparr>ndarray = b, dict = length h\<rparr>, h @ [[(''attrs'', DRef (Suc (length h)))], []])"
  by (simp add: ArrayWithAttrs_new_def array_finalize_def alloc_def nth_append list_update_append)

lemma deref_append_old: "a < length h \<Longrightarrow> deref (h @ h') a = deref h a"
  by (simp add: deref_def nth_append)

lemma getattr_attrs_new:
  "getattr_attrs (h @ [[(''attrs'', DRef (Suc (length h)))], []])
       \<lparr>ndarray = b, dict = length h\<rparr> = Inr (DRef (Suc (length h)))"
  by (simp add: getattr_attrs_def deref_def nth_append)

lemma deref_new_attrs:
  "deref (h @ [[(''attrs'', DRef (Suc (length h)))], []]) (Suc (length h)) = Some []"
  by (simp add: deref_def nth_append)

lemma leaf_from_new_array:
  "(case ArrayWithAttrs_new xs h of
      (arr, h1) \<Rightarrow> map_sum id (\<lambda>l. (Leaf l, h1)) (HDF5DatasetAdapter (NumpyArray arr) h1)) =
   (if hasobject xs \<and> \<not> zero_dim (array_values xs) then Inl NotImplementedError
    else Inr (Leaf \<lparr>data = FromArray (NumpyArray \<lparr>ndarray = xs, dict = length h\<rparr>),
                    metadata = PyValue (DRef (Suc (length h)))\<rparr>,
              h @ [[(''attrs'', DRef (Suc (length h)))], []]))"
  by (simp add: ArrayWithAttrs_new_eq HDF5DatasetAdapter_def from_array_def getattr_attrs_new)

lemma views_all_arrays:
  "NotAnArray \<notin> set inputs \<Longrightarrow> \<exists>bs. views inputs = Inr bs"
proof (induction inputs)
  case Nil
  show ?case by simp
next
  case (Cons i inputs)
  then obtain bs where bs: "views inputs = Inr bs" by auto
  from Cons.prems have "i \<noteq> NotAnArray" by auto
  then obtain b where "view_ndarray i = Inr b" by (cases i) auto
  with bs show ?case by simp
qed

lemma views_not_array:
  "NotAnArray \<in> set inputs \<Longrightarrow> views inputs = Inl AttributeError"
proof (induction inputs)
  case Nil
  then show ?case by simp
next
  case (Cons i inputs)
  show ?case
  proof (cases i)
    case NotAnArray
    then show ?thesis by simp
  next
    case (WithAttrs a)
    with Cons show ?thesis by simp
  next
    case (NdArray b)
    with Cons show ?thesis by simp
  qed
qed

lemma array_ufunc_not_array:
  "NotAnArray \<in> set inputs \<Longrightarrow> array_ufunc self u method inputs h = Inl AttributeError"
  by (simp add: array_ufunc_def views_not_array)

lemma array_ufunc_returns:
  assumes "dict self < length h"
    and "array_ufunc self u method inputs h = Inr (out, h')"
  shows "dict out = dict self \<and> getattr_attrs h' out = getattr_attrs h self"
proof -
  from assms(2) obtain bs r where "views inputs = Inr bs" and "f_table u method bs = Inr r"
    by (auto simp: array_ufunc_def split: sum.splits)
  with assms(2) have out: "out = \<lparr>ndarray = r, dict = dict self\<rparr>"
    and h': "h' = h @ [[(''attrs'', DRef (Suc (length h)))], []]"
    by (simp_all add: array_ufunc_def ArrayWithAttrs_new_eq)
  from assms(1) out h' show ?thesis
    by (simp add: getattr_attrs_def deref_append_old)
qed

section \<open>Lookup by path\<close>

lemma split_path_name: "CHR ''/'' \<notin> set k \<Longrightarrow> split_path k = [k]"
  by (induction k) auto

lemma Group_getitem_child:
  assumes "map_of (members (group_of g)) k = Some obj"
    and "CHR ''/'' \<notin> set k" and "k \<noteq> []" and "k \<noteq> ''.''"
  shows "Group_getitem g k = Inr obj"
proof -
  from assms(2,3,4) have "components k = [k]"
    by (simp add: components_def split_path_name)
  moreover from assms(2,3) obtain c cs where "k = c # cs" and "c \<noteq> CHR ''/''"
    by (cases k) auto
  ultimately show ?thesis using assms(1)
    by (simp add: Group_getitem_def)
qed

lemma Group_getitem_no_child:
  assumes "map_of (members (group_of g)) k = None"
    and "CHR ''/'' \<notin> set k" and "k \<noteq> []" and "k \<noteq> ''.''"
  shows "Group_getitem g k = Inl KeyError"
proof -
  from assms(2,3,4) have "components k = [k]"
    by (simp add: components_def split_path_name)
  moreover from assms(2,3) obtain c cs where "k = c # cs" and "c \<noteq> CHR ''/''"
    by (cases k) auto
  ultimately show ?thesis using assms(1)
    by (simp add: Group_getitem_def)
qed

section \<open>Child resolution\<close>

lemma getitem_lookup_raises:
  "Group_getitem (node self) key = Inl e \<Longrightarrow> getitem self key h = Inl e"
  by (simp add: getitem_def)



lemma getitem_object_not_string:
  "Group_getitem (node self) key = Inr (IsDataset v) \<Longrightarrow> is_object (dtype v) \<Longrightarrow>
   check_string_dtype (dtype v) = None \<Longrightarrow>
   getitem self key h = Inl AttributeError"
  by (simp add: getitem_def)


lemma object_string_is_vlen:
  "is_object dt \<Longrightarrow> check_string_dtype dt = Some info \<Longrightarrow> str_length info = None"
  by (cases dt) auto

lemma getitem_vlen_string:
  assumes "Group_getitem (node self) key = Inr (IsDataset v)"
    and "is_object (dtype v)"
    and "check_string_dtype (dtype v) = Some info"
    and "read_all (file_of (node self)) (name (group_of (node self)) @ ''/'' @ key) = Inr payload"
  shows "getitem self key h =
     (if size_ds v = 1 \<and> hasobject (numpy_array payload)
           \<and> \<not> zero_dim (array_values (numpy_array payload))
      then Inl NotImplementedError
      else Inr (Leaf \<lparr>data = FromArray (NumpyArray
                         \<lparr>ndarray = (if size_ds v = 1 then numpy_array payload
                                      else numpy_array_empty),
                            dict = length h\<rparr>),
                      metadata = PyValue (DRef (Suc (length h)))\<rparr>,
                h @ [[(''attrs'', DRef (Suc (length h)))], []]))"
  using assms object_string_is_vlen [OF assms(2,3)]
  by (simp add: getitem_def leaf_from_new_array numpy_array_empty_def Let_def)

lemma contains_missing:
  "Group_getitem (node self) key = Inl KeyError \<Longrightarrow> contains self key h = Inr (False, h)"
  by (simp add: contains_def getitem_lookup_raises)

lemma contains_resolved:
  "getitem self key h = Inr (c, h') \<Longrightarrow> contains self key h = Inr (True, h')"
  by (simp add: contains_def)

lemma contains_passes_error:
  "getitem self key h = Inl e \<Longrightarrow> e \<noteq> KeyError \<Longrightarrow> contains self key h = Inl e"
  by (simp add: contains_def)

section \<open>The indexer methods\<close>

lemma keys_slice_forward:
  "0 \<le> direction \<Longrightarrow> keys_slice self start stop direction = Inr (list_slice (iter self) start stop)"
  by (simp add: keys_slice_def getslice_def)

lemma keys_slice_backward:
  "direction < 0 \<Longrightarrow> keys_slice self start stop direction = Inl TypeError"
  by (simp add: keys_slice_def getslice_def reversed_def)

lemma list_slice_whole: "list_slice xs (Some 0) (Some (int (length xs))) = xs"
  by (simp add: list_slice_def slice_bound_def)

lemma item_by_index_backward:
  "direction < 0 \<Longrightarrow> item_by_index self index direction = Inl TypeError"
  by (simp add: item_by_index_def getindex_def reversed_def)

lemma item_by_index_forward:
  "0 \<le> direction \<Longrightarrow> 0 \<le> index \<Longrightarrow>
   item_by_index self index direction =
     (if index < int (len self) then Inr (iter self ! nat index) else Inl IndexError)"
  by (simp add: item_by_index_def getindex_def len_def iter_def)

lemma items_slice_backward:
  "direction < 0 \<Longrightarrow> resolve_items self (iter self) h = Inr (items, h') \<Longrightarrow>
   items_slice self start stop direction h = Inl TypeError"
  by (simp add: items_slice_def getslice_def reversed_def)

section \<open>The sample container\<close>

lemma root_keys:
  "iter root = [''entry'', ''data'', ''names'', ''one'', ''ragged'', ''fixed'', ''fixed_one'']"
  by (simp add: iter_def root_def root_group_def)

lemma root_member:
  "map_of (members (group_of (node root))) ''entry'' = Some (IsGroup entry_group)"
  "map_of (members (group_of (node root))) ''data'' = Some (IsDataset data_ds)"
  "map_of (members (group_of (node root))) ''names'' = Some (IsDataset names_ds)"
  "map_of (members (group_of (node root))) ''one'' = Some (IsDataset one_ds)"
  "map_of (members (group_of (node root))) ''ragged'' = Some (IsDataset ragged_ds)"
  "map_of (members (group_of (node root))) ''fixed'' = Some (IsDataset fixed_ds)"
  "map_of (members (group_of (node root))) ''fixed_one'' = Some (IsDataset fixed_one_ds)"
  "map_of (members (group_of (node root))) ''absent'' = None"
  by (simp_all add: root_def root_group_def)

lemma root_lookup:
  "Group_getitem (node root) ''entry'' = Inr (IsGroup entry_group)"
  "Group_getitem (node root) ''data'' = Inr (IsDataset data_ds)"
  "Group_getitem (node root) ''names'' = Inr (IsDataset names_ds)"
  "Group_getitem (node root) ''one'' = Inr (IsDataset one_ds)"
  "Group_getitem (node root) ''ragged'' = Inr (IsDataset ragged_ds)"
  "Group_getitem (node root) ''fixed'' = Inr (IsDataset fixed_ds)"
  "Group_getitem (node root) ''fixed_one'' = Inr (IsDataset fixed_one_ds)"
  "Group_getitem (node root) ''absent'' = Inl KeyError"
  by (simp_all add: Group_getitem_child Group_getitem_no_child root_member)

lemma root_lookup_path:
  "Group_getitem (node root) ''entry/data'' = Inr (IsDataset data_ds)"
  "Group_getitem (node root) ''entry/note'' = Inr (IsDataset note_ds)"
  by (simp_all add: Group_getitem_def components_def root_def root_group_def entry_group_def)

lemma root_read_all:
  "read_all (file_of (node root)) (name (group_of (node root)) @ ''/'' @ ''names'')
     = Inr (PyArray \<lparr>hasobject = True, array_values = Dim [Item ''alpha'', Item ''beta'']\<rparr>)"
  "read_all (file_of (node root)) (name (group_of (node root)) @ ''/'' @ ''one'')
     = Inr (PyArray \<lparr>hasobject = True, array_values = Dim [Item ''alpha'']\<rparr>)"
  "read_all (file_of (node root)) (name (group_of (node root)) @ ''/'' @ ''entry/note'')
     = Inr (PyObject ''alpha'')"
  by (simp_all add: read_all_def Group_getitem_def components_def root_def root_group_def
      entry_group_def names_ds_def one_ds_def note_ds_def vlen_str_def)

section \<open>Object-typed leaves\<close>

text \<open>
  C1: for every leaf of object encoding with more than one element, \<open>get(key)\<close>
  succeeds and returns a leaf adapter over a zero-element array with empty
  metadata. The dataset \<open>ragged\<close> of the sample file is such a leaf: its elements
  are variable-length integer arrays, for which the string check answers \<open>None\<close>,
  and resolving it raises \<open>AttributeError\<close> instead of serving the placeholder.
\<close>

theorem getitem_ragged_object_leaf_raises:
  "map_of (members (group_of (node root))) ''ragged'' = Some (IsDataset ragged_ds)
   \<and> is_object (dtype ragged_ds) \<and> 1 < size_ds ragged_ds
   \<and> getitem root ''ragged'' [] = Inl AttributeError"
  by (simp add: root_member getitem_object_not_string [OF root_lookup(5)] ragged_ds_def
      vlen_int_def size_ds_def)



text \<open>
  C5: every object-typed leaf with exactly one element resolves to a leaf adapter
  over the one-element array of its payload, with empty metadata. The dataset
  \<open>one\<close> is a variable-length string leaf of shape \<^verbatim>\<open>(1,)\<close>: its payload is
  repackaged into an object array with one dimension, which
  \<^verbatim>\<open>dask.array.from_array\<close> refuses, and resolving it raises
  \<open>NotImplementedError\<close>.
\<close>

theorem getitem_single_vlen_string_raises:
  "Group_getitem (node root) ''one'' = Inr (IsDataset one_ds)
   \<and> is_object (dtype one_ds) \<and> size_ds one_ds = 1
   \<and> getitem root ''one'' [] = Inl NotImplementedError"
proof -
  have obj: "is_object (dtype one_ds)"
    by (simp add: one_ds_def vlen_str_def)
  have chk: "check_string_dtype (dtype one_ds)
               = Some \<lparr>encoding = ''utf-8'', str_length = None\<rparr>"
    by (simp add: one_ds_def vlen_str_def)
  have sz: "size_ds one_ds = 1"
    by (simp add: one_ds_def size_ds_def)
  from getitem_vlen_string [OF root_lookup(4) obj chk root_read_all(2), of "[]"] sz
  have "getitem root ''one'' [] = Inl NotImplementedError" by simp
  with obj sz root_lookup(4) show ?thesis by simp
qed

lemma getitem_scalar_vlen_string:
  "size_ds note_ds = 1
   \<and> getitem root ''entry/note'' [] =
       Inr (Leaf \<lparr>data = FromArray (NumpyArray
                     \<lparr>ndarray = \<lparr>hasobject = False, array_values = Item ''alpha''\<rparr>, dict = 0\<rparr>),
                  metadata = PyValue (DRef 1)\<rparr>,
            [[(''attrs'', DRef 1)], []])"
proof -
  have obj: "is_object (dtype note_ds)"
    by (simp add: note_ds_def vlen_str_def)
  have chk: "check_string_dtype (dtype note_ds)
               = Some \<lparr>encoding = ''utf-8'', str_length = None\<rparr>"
    by (simp add: note_ds_def vlen_str_def)
  have sz: "size_ds note_ds = 1"
    by (simp add: note_ds_def size_ds_def)
  from getitem_vlen_string [OF root_lookup_path(2) obj chk root_read_all(3), of "[]"] sz
  show ?thesis by simp
qed

lemma getitem_many_vlen_strings:
  "size_ds names_ds = 2
   \<and> getitem root ''names'' [] =
       Inr (Leaf \<lparr>data = FromArray (NumpyArray
                     \<lparr>ndarray = \<lparr>hasobject = False, array_values = Dim []\<rparr>, dict = 0\<rparr>),
                  metadata = PyValue (DRef 1)\<rparr>,
            [[(''attrs'', DRef 1)], []])"
proof -
  have obj: "is_object (dtype names_ds)"
    by (simp add: names_ds_def vlen_str_def)
  have chk: "check_string_dtype (dtype names_ds)
               = Some \<lparr>encoding = ''utf-8'', str_length = None\<rparr>"
    by (simp add: names_ds_def vlen_str_def)
  have sz: "size_ds names_ds = 2"
    by (simp add: names_ds_def size_ds_def)
  from getitem_vlen_string [OF root_lookup(3) obj chk root_read_all(1), of "[]"] sz
  show ?thesis by (simp add: numpy_array_empty_def)
qed

section \<open>The indexer methods in reverse direction\<close>

text \<open>
  C3: the keys-slice with direction -1 over all \<open>n\<close> children is the reverse of the
  one with direction +1. On the sample node the forward slice is the list of all
  seven names, and the backward slice raises \<open>TypeError\<close>: \<^verbatim>\<open>reversed(keys)\<close> is
  an iterator, and \<^verbatim>\<open>keys[start:stop]\<close> subscripts it.
\<close>

theorem keys_slice_reverse_raises:
  "len root = 7
   \<and> keys_slice root (Some 0) (Some 7) 1 =
       Inr [''entry'', ''data'', ''names'', ''one'', ''ragged'', ''fixed'', ''fixed_one'']
   \<and> keys_slice root (Some 0) (Some 7) (- 1) = Inl TypeError"
proof -
  have "len root = 7"
    by (simp add: len_def root_def root_group_def)
  moreover have "keys_slice root (Some 0) (Some 7) 1 = Inr (iter root)"
    using list_slice_whole [of "iter root"]
    by (simp add: keys_slice_forward root_keys)
  moreover have "keys_slice root (Some 0) (Some 7) (- 1) = Inl TypeError"
    by (simp add: keys_slice_backward)
  ultimately show ?thesis by (simp add: root_keys)
qed

text \<open>
  C4: single-key-by-index with negative direction returns the name at the given
  position of the reversed list. Position 0 is within bounds on the sample node,
  and the call raises \<open>TypeError\<close>, for the same reason as the keys-slice.
\<close>

theorem item_by_index_reverse_raises:
  "0 < len root \<and> item_by_index root 0 (- 1) = Inl TypeError"
  by (simp add: item_by_index_backward len_def root_def root_group_def)

section \<open>Authentication and construction\<close>

text \<open>
  C7: on a node with no identity and no access policy, \<open>authenticated_as\<close> returns a
  node on the same container node with the identity attached; with an identity
  already bound it fails with \<open>AlreadyAuthenticated\<close> (\<open>RuntimeError\<close>), and
  otherwise with an access policy set it fails with \<open>NotImplemented\<close>. The result
  is a new value: the node it was called on is an argument and is not changed.
\<close>

theorem authenticated_as_cases:
  "(authenticated_identity s1 = None \<and> access_policy s1 = None \<longrightarrow>
      authenticated_as s1 identity =
        Inr \<lparr>node = node s1, access_policy = None, authenticated_identity = identity\<rparr>)
   \<and> (authenticated_identity s2 \<noteq> None \<longrightarrow> authenticated_as s2 identity = Inl RuntimeError)
   \<and> (authenticated_identity s3 = None \<and> access_policy s3 \<noteq> None \<longrightarrow>
        authenticated_as s3 identity = Inl NotImplementedError)"
  by (simp add: authenticated_as_def HDF5Adapter_init_def)

theorem authenticated_as_cases_witness:
  "authenticated_identity root = None \<and> access_policy root = None
   \<and> authenticated_as root (Some ''alice'') =
       Inr \<lparr>node = \<lparr>file_of = root_group, group_of = root_group\<rparr>,
             access_policy = None, authenticated_identity = Some ''alice''\<rparr>
   \<and> authenticated_identity (root\<lparr>authenticated_identity := Some ''alice''\<rparr>) \<noteq> None
   \<and> authenticated_as (root\<lparr>authenticated_identity := Some ''alice''\<rparr>) (Some ''alice'')
       = Inl RuntimeError
   \<and> authenticated_identity (root\<lparr>access_policy := Some open_policy\<rparr>) = None
   \<and> access_policy (root\<lparr>access_policy := Some open_policy\<rparr>) \<noteq> None
   \<and> authenticated_as (root\<lparr>access_policy := Some open_policy\<rparr>) (Some ''alice'')
       = Inl NotImplementedError"
  using authenticated_as_cases [of root "Some ''alice''"
      "root\<lparr>authenticated_identity := Some ''alice''\<rparr>"
      "root\<lparr>access_policy := Some open_policy\<rparr>"]
  by (simp add: root_def)

text \<open>
  C9: construction with a supplied access policy fails with \<open>IncompatiblePolicy\<close>
  (\<open>ValueError\<close>) exactly when the policy's compatibility check answers false; with
  a compatible policy or with none it succeeds and the node holds the policy as
  given.
\<close>

theorem HDF5Adapter_init_policy:
  "(HDF5Adapter_init nd pol ident = Inl ValueError
      \<longleftrightarrow> (\<exists>p. pol = Some p \<and> \<not> check_compatibility p))
   \<and> ((pol = None \<or> (\<exists>p. pol = Some p \<and> check_compatibility p)) \<longrightarrow>
        HDF5Adapter_init nd pol ident =
          Inr \<lparr>node = nd, access_policy = pol, authenticated_identity = ident\<rparr>)
   \<and> (HDF5Adapter_init nd pol' ident = Inl e \<longrightarrow> e = ValueError)"
  by (auto simp: HDF5Adapter_init_def split: option.splits if_splits)

theorem HDF5Adapter_init_policy_witness:
  "(HDF5Adapter_init (node root) (Some open_policy) (None :: string option) = Inl ValueError
      \<longleftrightarrow> (\<exists>p. Some open_policy = Some p \<and> \<not> check_compatibility p))
   \<and> (\<exists>p. Some open_policy = Some p \<and> check_compatibility p)
   \<and> HDF5Adapter_init (node root) (Some open_policy) (None :: string option) =
        Inr \<lparr>node = node root, access_policy = Some open_policy, authenticated_identity = None\<rparr>
   \<and> HDF5Adapter_init (node root) (Some strict_policy) (None :: string option) = Inl ValueError"
proof -
  have c: "\<exists>p. Some open_policy = Some p \<and> check_compatibility p"
    by (simp add: open_policy_def)
  have s: "HDF5Adapter_init (node root) (Some strict_policy) (None :: string option)
             = Inl ValueError"
    by (simp add: HDF5Adapter_init_def strict_policy_def)
  from HDF5Adapter_init_policy [of "node root" "Some open_policy" "None :: string option"
      "Some strict_policy" ValueError] c s
  show ?thesis by blast
qed

section \<open>Groups, normal leaves and keys that do not resolve\<close>




text \<open>
  C10: membership answers \<open>False\<close> for a key that is not a child, and \<open>True\<close> for
  every existing child, resolving the child on the way. \<open>ragged\<close> is an existing
  child of the sample node, and the membership test on it raises
  \<open>AttributeError\<close>: the lookup raises it, and only \<open>KeyError\<close> is turned into
  \<open>False\<close>.
\<close>

theorem contains_ragged_object_leaf_raises:
  "map_of (members (group_of (node root))) ''ragged'' = Some (IsDataset ragged_ds)
   \<and> contains root ''ragged'' [] = Inl AttributeError
   \<and> contains root ''absent'' [] = Inr (False, [])
   \<and> contains root ''names'' [] = Inr (True, [[(''attrs'', DRef 1)], []])"
proof -
  have "getitem root ''ragged'' [] = Inl AttributeError"
    by (simp add: getitem_object_not_string [OF root_lookup(5)] ragged_ds_def vlen_int_def)
  then have "contains root ''ragged'' [] = Inl AttributeError"
    by (rule contains_passes_error) simp
  moreover have "contains root ''absent'' [] = Inr (False, [])"
    by (rule contains_missing [OF root_lookup(8)])
  moreover have "contains root ''names'' [] = Inr (True, [[(''attrs'', DRef 1)], []])"
    using getitem_many_vlen_strings by (simp add: contains_def)
  ultimately show ?thesis by (simp add: root_member)
qed

section \<open>Operations on ArrayWithAttrs\<close>

text \<open>
  C6: for every \<open>ArrayWithAttrs\<close> with metadata \<open>m\<close> and every derived-array
  operation (elementwise apply, reduce, accumulate, windowed reduce, outer product,
  indexed update), the result is an \<open>ArrayWithAttrs\<close> carrying the same metadata
  reference. Adding a Python number to the sample array is an elementwise
  operation whose second operand has no \<^verbatim>\<open>view\<close> method; a windowed reduce with a
  list of indices and an indexed update with a list of indices and a number are
  the same: each raises \<open>AttributeError\<close> and gives no result.
\<close>

theorem array_ufunc_scalar_operand_raises:
  "array_ufunc sample_array add_ufunc Call [WithAttrs sample_array, NotAnArray] sample_heap
     = Inl AttributeError
   \<and> array_ufunc sample_array add_ufunc Reduceat [WithAttrs sample_array, NotAnArray] sample_heap
       = Inl AttributeError
   \<and> array_ufunc sample_array add_ufunc At [WithAttrs sample_array, NotAnArray, NotAnArray]
         sample_heap
       = Inl AttributeError"
  by (simp add: array_ufunc_not_array)

lemma array_ufunc_reduce_sample:
  "dict sample_array < length sample_heap
   \<and> array_ufunc sample_array add_ufunc Reduce [WithAttrs sample_array] sample_heap
       = Inr (\<lparr>ndarray = [6], dict = 0\<rparr>, sample_heap @ [[(''attrs'', DRef 3)], []])
   \<and> getattr_attrs sample_heap sample_array = Inr (DRef 1)
   \<and> getattr_attrs (sample_heap @ [[(''attrs'', DRef 3)], []])
         \<lparr>ndarray = [6::int], dict = 0\<rparr> = Inr (DRef 1)"
proof -
  have lt: "dict sample_array < length sample_heap"
    by (simp add: sample_array_def sample_heap_def)
  have run: "array_ufunc sample_array add_ufunc Reduce [WithAttrs sample_array] sample_heap
       = Inr (\<lparr>ndarray = [6], dict = 0\<rparr>, sample_heap @ [[(''attrs'', DRef 3)], []])"
    by (simp add: array_ufunc_def ArrayWithAttrs_new_eq add_ufunc_def sum_kernel_def
        sample_array_def sample_heap_def)
  have m: "getattr_attrs sample_heap sample_array = Inr (DRef 1)"
    by (simp add: getattr_attrs_def deref_def sample_array_def sample_heap_def)
  from array_ufunc_returns [OF lt run] m lt run show ?thesis by simp
qed

end
